theory Spec2Isabelle
  imports Main
begin

section \<open>The TOTP modal of lemmy-ui (totp-modal.tsx)\<close>

text \<open>
  A shallow embedding of \<^verbatim>\<open>src/shared/components/common/totp-modal.tsx\<close>.
  The component is an Inferno class component; its handlers mutate the component state
  and call collaborators (the \<^verbatim>\<open>onSubmit\<close> prop, \<^verbatim>\<open>toast\<close>, the bootstrap modal,
  \<^verbatim>\<open>focus()\<close> on input elements). Here every handler is a function from the
  component (state and a log of the collaborator calls it has made) to the component.

  Strings are \<open>char list\<close>; \<^verbatim>\<open>text.length\<close> is \<open>length\<close>. A HOL \<open>char\<close> is one
  of 256 code units, so the payloads covered are the Latin-1 ones.
\<close>

subsection \<open>JavaScript's conversion of a string to a number\<close>

text \<open>
  \<^verbatim>\<open>isNaN(event.target.value)\<close> and \<^verbatim>\<open>isNaN(Number(text))\<close> both apply ECMAScript's
  StringToNumber to a string and ask whether the result is NaN. StringToNumber yields NaN
  exactly when the string does not parse as a \<^emph>\<open>StringNumericLiteral\<close>:

  \<^verbatim>\<open>
  StringNumericLiteral ::: StrWhiteSpace? | StrWhiteSpace? StrNumericLiteral StrWhiteSpace?
  StrNumericLiteral ::: StrDecimalLiteral | NonDecimalIntegerLiteral
  StrDecimalLiteral ::: StrUnsignedDecimalLiteral | + StrUnsignedDecimalLiteral
                      | - StrUnsignedDecimalLiteral
  StrUnsignedDecimalLiteral ::: Infinity | DecimalDigits . DecimalDigits? ExponentPart?
                      | . DecimalDigits ExponentPart? | DecimalDigits ExponentPart?
  ExponentPart ::: (e | E) (DecimalDigits | + DecimalDigits | - DecimalDigits)
  NonDecimalIntegerLiteral ::: 0b BinaryDigits | 0o OctalDigits | 0x HexDigits
  \<close>

  The empty and the all-blank string convert to 0. Only whether the result is NaN matters
  to the component, so the numeric value itself is not modelled.
\<close>

datatype js_number = NaN | NotNaN

definition isStrWhiteSpaceChar :: "char \<Rightarrow> bool" where
  "isStrWhiteSpaceChar c =
     (c \<in> set [CHR 0x09, CHR 0x0A, CHR 0x0B, CHR 0x0C, CHR 0x0D, CHR 0x20, CHR 0xA0])"

definition isDecimalDigit :: "char \<Rightarrow> bool" where
  "isDecimalDigit c = (c \<in> set ''0123456789'')"

definition isBinaryDigit :: "char \<Rightarrow> bool" where
  "isBinaryDigit c = (c \<in> set ''01'')"

definition isOctalDigit :: "char \<Rightarrow> bool" where
  "isOctalDigit c = (c \<in> set ''01234567'')"

definition isHexDigit :: "char \<Rightarrow> bool" where
  "isHexDigit c = (c \<in> set ''0123456789abcdefABCDEF'')"

definition isDecimalDigits :: "string \<Rightarrow> bool" where
  "isDecimalDigits s = (s \<noteq> [] \<and> list_all isDecimalDigit s)"

fun isSignedInteger :: "string \<Rightarrow> bool" where
  "isSignedInteger [] = False"
| "isSignedInteger (c # r) =
     (if c = CHR ''+'' \<or> c = CHR ''-'' then isDecimalDigits r else isDecimalDigits (c # r))"

fun isExponentPart :: "string \<Rightarrow> bool" where
  "isExponentPart [] = False"
| "isExponentPart (c # r) = ((c = CHR ''e'' \<or> c = CHR ''E'') \<and> isSignedInteger r)"

definition isStrUnsignedDecimalLiteral :: "string \<Rightarrow> bool" where
  "isStrUnsignedDecimalLiteral s =
     (s = ''Infinity'' \<or>
      (let ip = takeWhile isDecimalDigit s; r1 = dropWhile isDecimalDigit s in
       case r1 of
         [] \<Rightarrow> ip \<noteq> []
       | c # r2 \<Rightarrow>
           if c = CHR ''.'' then
             (let fp = takeWhile isDecimalDigit r2; r3 = dropWhile isDecimalDigit r2 in
              ip @ fp \<noteq> [] \<and> (r3 = [] \<or> isExponentPart r3))
           else ip \<noteq> [] \<and> isExponentPart r1))"

fun isStrDecimalLiteral :: "string \<Rightarrow> bool" where
  "isStrDecimalLiteral [] = False"
| "isStrDecimalLiteral (c # r) =
     (if c = CHR ''+'' \<or> c = CHR ''-'' then isStrUnsignedDecimalLiteral r
      else isStrUnsignedDecimalLiteral (c # r))"

fun isNonDecimalIntegerLiteral :: "string \<Rightarrow> bool" where
  "isNonDecimalIntegerLiteral (z # x # ds) =
     (z = CHR ''0'' \<and> ds \<noteq> [] \<and>
      (if x = CHR ''b'' \<or> x = CHR ''B'' then list_all isBinaryDigit ds
       else if x = CHR ''o'' \<or> x = CHR ''O'' then list_all isOctalDigit ds
       else if x = CHR ''x'' \<or> x = CHR ''X'' then list_all isHexDigit ds
       else False))"
| "isNonDecimalIntegerLiteral _ = False"

definition isStrNumericLiteral :: "string \<Rightarrow> bool" where
  "isStrNumericLiteral s = (isStrDecimalLiteral s \<or> isNonDecimalIntegerLiteral s)"

definition trimStrWhiteSpace :: "string \<Rightarrow> string" where
  "trimStrWhiteSpace s =
     rev (dropWhile isStrWhiteSpaceChar (rev (dropWhile isStrWhiteSpaceChar s)))"

definition Number :: "string \<Rightarrow> js_number" where
  "Number s =
     (let t = trimStrWhiteSpace s in
      if t = [] \<or> isStrNumericLiteral t then NotNaN else NaN)"

definition isNaN :: "js_number \<Rightarrow> bool" where
  "isNaN n = (n = NaN)"

subsection \<open>Props, state and collaborators\<close>

datatype modal_type = Login | Remove | Generate


datatype modal_call = ModalShow | ModalHide | ModalDispose

text \<open>
  \<open>totp\<close> and \<open>qrCode\<close> are \<^verbatim>\<open>TotpModalState\<close>. The other fields record effects:
  \<open>focused\<close> is the cell on which \<^verbatim>\<open>focus()\<close> was last called, \<open>onSubmit_calls\<close> the
  arguments of the \<^verbatim>\<open>props.onSubmit\<close> invocations (oldest first), \<open>onSubmit_pending\<close>
  the number of their promises not yet settled, \<open>toasts\<close> the \<^verbatim>\<open>toast(text, color)\<close>
  calls, and \<open>defaultPrevented\<close> how many events had \<^verbatim>\<open>preventDefault()\<close> called.

  \<open>modal\<close> is the field \<^verbatim>\<open>modal: Modal\<close>. It is declared without an initialiser, so
  it is \<^verbatim>\<open>undefined\<close> (\<open>None\<close>) until \<^verbatim>\<open>componentDidMount\<close> assigns it after its
  dynamic import has resolved; from then on it is the bootstrap modal, modelled by the calls
  made on it (oldest first).
\<close>

record TotpModal =
  totp :: string
  qrCode :: "string option"
  focused :: "nat option"
  onSubmit_calls :: "string list"
  onSubmit_pending :: nat
  toasts :: "(string \<times> string) list"
  modal :: "modal_call list option"
  defaultPrevented :: nat

definition TOTP_LENGTH :: nat where
  "TOTP_LENGTH = 6"

definition initial :: TotpModal where
  "initial = \<lparr>totp = [], qrCode = None, focused = None, onSubmit_calls = [],
     onSubmit_pending = 0, toasts = [], modal = None, defaultPrevented = 0\<rparr>"

text \<open>
  \<^verbatim>\<open>modal.inputRefs[i]?.focus()\<close>: render stores a ref for each of the cells
  \<open>0 \<dots> TOTP_LENGTH - 1\<close>; any other index reads \<^verbatim>\<open>undefined\<close> and the call is skipped.
\<close>

definition focus_input :: "nat \<Rightarrow> TotpModal \<Rightarrow> TotpModal" where
  "focus_input i m = (if i < TOTP_LENGTH then m\<lparr>focused := Some i\<rparr> else m)"

definition preventDefault :: "TotpModal \<Rightarrow> TotpModal" where
  "preventDefault m = m\<lparr>defaultPrevented := Suc (defaultPrevented m)\<rparr>"

definition toast :: "string \<Rightarrow> string \<Rightarrow> TotpModal \<Rightarrow> TotpModal" where
  "toast text color m = m\<lparr>toasts := toasts m @ [(text, color)]\<rparr>"

subsection \<open>Submission\<close>

text \<open>
  \<^verbatim>\<open>handleSubmit\<close> is an async function. Up to its \<^verbatim>\<open>await\<close> it runs synchronously
  inside the caller: it invokes \<^verbatim>\<open>modal.props.onSubmit(totp)\<close>. The rest runs when the
  promise settles with the boolean \<open>successful\<close>.
\<close>

definition handleSubmit :: "string \<Rightarrow> TotpModal \<Rightarrow> TotpModal" where
  "handleSubmit code m =
     m\<lparr>onSubmit_calls := onSubmit_calls m @ [code],
       onSubmit_pending := Suc (onSubmit_pending m)\<rparr>"

definition handleSubmit_resume :: "bool \<Rightarrow> TotpModal \<Rightarrow> TotpModal" where
  "handleSubmit_resume successful m =
     (if \<not> successful then focus_input 0 (m\<lparr>totp := []\<rparr>) else m)"

subsection \<open>The event handlers\<close>

text \<open>
  Inferno applies \<^verbatim>\<open>setState\<close> synchronously when it is called outside a render, as
  it is from an event handler, so \<^verbatim>\<open>modal.state\<close> read after the call is the updated
  state. \<open>v\<close> is \<^verbatim>\<open>event.target.value\<close>.
\<close>

definition handleInput :: "nat \<Rightarrow> string \<Rightarrow> TotpModal \<Rightarrow> TotpModal" where
  "handleInput i v m =
     (if isNaN (Number v) then preventDefault m
      else
        (let m1 = m\<lparr>totp := totp m @ v\<rparr>;
             m2 = focus_input (i + 1) m1
         in if length (totp m2) \<ge> TOTP_LENGTH then handleSubmit (totp m2) m2 else m2))"

text \<open>
  \<^verbatim>\<open>prev.totp.slice(0, prev.totp.length - 1)\<close>: on the empty string the end index is
  \<open>-1\<close> and the slice is empty, which is what \<open>take\<close> gives with the truncated
  difference.
\<close>

definition handleKeyUp :: "nat \<Rightarrow> string \<Rightarrow> TotpModal \<Rightarrow> TotpModal" where
  "handleKeyUp i key m =
     (if key = ''Backspace'' \<and> i > 0 then
        (let m1 = preventDefault m;
             m2 = m1\<lparr>totp := take (length (totp m1) - 1) (totp m1)\<rparr>
         in focus_input (i - 1) m2)
      else m)"

definition handlePaste :: "string \<Rightarrow> TotpModal \<Rightarrow> TotpModal" where
  "handlePaste text m =
     (let m0 = preventDefault m in
      if length text > TOTP_LENGTH \<or> isNaN (Number text) then
        (toast ''Invalid TOTP: Must be string of six digits'' ''danger'' m0)\<lparr>totp := []\<rparr>
      else handleSubmit text (m0\<lparr>totp := text\<rparr>))"

definition clearTotp :: "TotpModal \<Rightarrow> TotpModal" where
  "clearTotp m = m\<lparr>totp := []\<rparr>"

subsection \<open>Lifecycle\<close>


text \<open>
  A lifecycle method or an async handler either returns or throws; a throw keeps the effects
  made before it. \<open>TypeError\<close> is what JavaScript raises for a method call on
  \<^verbatim>\<open>undefined\<close>; \<open>LibraryError\<close> is an error raised inside a library the component
  calls.
\<close>

datatype js_error = TypeError | LibraryError string

datatype outcome = Returned TotpModal | Threw js_error TotpModal

text \<open>
  \<^verbatim>\<open>this.modal.show()\<close>, \<^verbatim>\<open>this.modal.hide()\<close> and \<^verbatim>\<open>this.modal.dispose()\<close>: the
  source calls them with no guard on \<^verbatim>\<open>this.modal\<close>.
\<close>

definition modal_do :: "modal_call \<Rightarrow> TotpModal \<Rightarrow> outcome" where
  "modal_do c m =
     (case modal m of
        None \<Rightarrow> Threw TypeError m
      | Some calls \<Rightarrow> Returned (m\<lparr>modal := Some (calls @ [c])\<rparr>))"


definition componentWillUnmount :: "TotpModal \<Rightarrow> outcome" where
  "componentWillUnmount m = modal_do ModalDispose m"



subsection \<open>Render: the six input cells\<close>

record input_cell =
  cell_value :: string
  cell_disabled :: bool

text \<open>\<^verbatim>\<open>value={totp[i] ?? ""}\<close> and \<^verbatim>\<open>disabled={totp.length !== i}\<close>.\<close>

definition render_inputs :: "TotpModal \<Rightarrow> input_cell list" where
  "render_inputs m =
     map (\<lambda>i. \<lparr>cell_value = (if i < length (totp m) then [totp m ! i] else []),
               cell_disabled = (length (totp m) \<noteq> i)\<rparr>)
         [0..<TOTP_LENGTH]"

text \<open>The cell a user can type into: the first cell rendered without \<^verbatim>\<open>disabled\<close>.\<close>

definition enabled_cell :: "TotpModal \<Rightarrow> nat option" where
  "enabled_cell m =
     List.find (\<lambda>i. \<not> cell_disabled (render_inputs m ! i)) [0..<length (render_inputs m)]"

subsection \<open>Events\<close>

text \<open>
  The browser delivers input, keyup and paste events only to a cell that is not
  disabled. A keystroke puts its single character into the empty enabled cell, so the
  handler sees \<^verbatim>\<open>event.target.value\<close> equal to that character.
\<close>

datatype event =
    Keystroke char
  | KeyUp string
  | Paste string
  | SubmitResult bool
  | Hidden

fun dispatch :: "event \<Rightarrow> TotpModal \<Rightarrow> TotpModal" where
  "dispatch (Keystroke c) m =
     (case enabled_cell m of None \<Rightarrow> m | Some i \<Rightarrow> handleInput i [c] m)"
| "dispatch (KeyUp key) m =
     (case enabled_cell m of None \<Rightarrow> m | Some i \<Rightarrow> handleKeyUp i key m)"
| "dispatch (Paste text) m =
     (case enabled_cell m of None \<Rightarrow> m | Some i \<Rightarrow> handlePaste text m)"
| "dispatch (SubmitResult b) m =
     (if onSubmit_pending m > 0
      then handleSubmit_resume b (m\<lparr>onSubmit_pending := onSubmit_pending m - 1\<rparr>)
      else m)"
| "dispatch Hidden m = clearTotp m"

definition run :: "event list \<Rightarrow> TotpModal \<Rightarrow> TotpModal" where
  "run es m = foldl (\<lambda>m e. dispatch e m) m es"

section \<open>Properties\<close>

subsection \<open>Supporting lemmas\<close>

lemma length_render_inputs: "length (render_inputs m) = TOTP_LENGTH"
  by (simp add: render_inputs_def)

lemma cell_disabled_render:
  "i < TOTP_LENGTH \<Longrightarrow> cell_disabled (render_inputs m ! i) = (length (totp m) \<noteq> i)"
  by (simp add: render_inputs_def)

lemma enabled_cell_eq:
  "enabled_cell m = (if length (totp m) < TOTP_LENGTH then Some (length (totp m)) else None)"
proof (cases "length (totp m) < TOTP_LENGTH")
  case True
  have "List.find (\<lambda>i. \<not> cell_disabled (render_inputs m ! i)) [0..<TOTP_LENGTH]
        = Some (length (totp m))"
    unfolding find_Some_iff using True
    by (intro exI [of _ "length (totp m)"]) (auto simp: cell_disabled_render)
  with True show ?thesis by (simp add: enabled_cell_def length_render_inputs)
next
  case False
  then have "List.find (\<lambda>i. \<not> cell_disabled (render_inputs m ! i)) [0..<TOTP_LENGTH] = None"
    unfolding find_None_iff by (auto simp: cell_disabled_render)
  with False show ?thesis by (simp add: enabled_cell_def length_render_inputs)
qed

lemma digit_not_white: "isDecimalDigit c \<Longrightarrow> \<not> isStrWhiteSpaceChar c"
  by (auto simp: isDecimalDigit_def isStrWhiteSpaceChar_def)

lemma trim_digits: "list_all isDecimalDigit s \<Longrightarrow> trimStrWhiteSpace s = s"
proof -
  assume a: "list_all isDecimalDigit s"
  have 1: "dropWhile isStrWhiteSpaceChar s = s"
    using a by (cases s) (auto simp: digit_not_white)
  have 2: "dropWhile isStrWhiteSpaceChar (rev s) = rev s"
    using a by (cases s rule: rev_cases) (auto simp: digit_not_white)
  show ?thesis by (simp add: trimStrWhiteSpace_def 1 2)
qed

lemma digits_unsigned: "list_all isDecimalDigit s \<Longrightarrow> s \<noteq> [] \<Longrightarrow> isStrUnsignedDecimalLiteral s"
proof -
  assume a: "list_all isDecimalDigit s" and n: "s \<noteq> []"
  have t: "takeWhile isDecimalDigit s = s" using a by (simp add: list_all_iff)
  have d: "dropWhile isDecimalDigit s = []" using a by (simp add: list_all_iff)
  show ?thesis by (simp add: isStrUnsignedDecimalLiteral_def t d n)
qed

lemma digit_not_sign: "isDecimalDigit c \<Longrightarrow> c \<noteq> CHR ''+'' \<and> c \<noteq> CHR ''-''"
  by (auto simp: isDecimalDigit_def)

lemma Number_digits: "list_all isDecimalDigit s \<Longrightarrow> Number s = NotNaN"
proof (cases s)
  case Nil
  then show ?thesis by (simp add: Number_def trimStrWhiteSpace_def)
next
  case (Cons c r)
  assume a: "list_all isDecimalDigit s"
  with Cons have "isDecimalDigit c" by simp
  then have "isStrDecimalLiteral s"
    using digits_unsigned [OF a] Cons digit_not_sign [of c] by simp
  then show ?thesis
    by (simp add: Number_def trim_digits [OF a] isStrNumericLiteral_def)
qed

lemma run_Nil: "run [] m = m"
  by (simp add: run_def)

lemma run_Cons: "run (e # es) m = run es (dispatch e m)"
  by (simp add: run_def)

lemma keystroke_digit_totp:
  "isDecimalDigit c \<Longrightarrow> length (totp m) < TOTP_LENGTH \<Longrightarrow>
   totp (dispatch (Keystroke c) m) = totp m @ [c]"
  by (simp add: enabled_cell_eq handleInput_def Number_digits isNaN_def focus_input_def
      handleSubmit_def Let_def)

lemma keystroke_digit_calls:
  "isDecimalDigit c \<Longrightarrow> length (totp m) < TOTP_LENGTH \<Longrightarrow>
   onSubmit_calls (dispatch (Keystroke c) m) =
     onSubmit_calls m @ (if Suc (length (totp m)) = TOTP_LENGTH then [totp m @ [c]] else [])"
  by (auto simp: enabled_cell_eq handleInput_def Number_digits isNaN_def focus_input_def
      handleSubmit_def Let_def)

lemma keystrokes_digits:
  "list_all isDecimalDigit ds \<Longrightarrow> length (totp m) + length ds \<le> TOTP_LENGTH \<Longrightarrow>
   totp (run (map Keystroke ds) m) = totp m @ ds \<and>
   onSubmit_calls (run (map Keystroke ds) m) =
     onSubmit_calls m @
       (if ds \<noteq> [] \<and> length (totp m) + length ds = TOTP_LENGTH then [totp m @ ds] else [])"
proof (induction ds arbitrary: m)
  case Nil
  then show ?case by (simp add: run_Nil)
next
  case (Cons c ds)
  define m' where "m' = dispatch (Keystroke c) m"
  from Cons.prems have c: "isDecimalDigit c" and ds: "list_all isDecimalDigit ds"
    and len: "length (totp m) < TOTP_LENGTH" by simp_all
  have t: "totp m' = totp m @ [c]"
    unfolding m'_def by (rule keystroke_digit_totp [OF c len])
  have k: "onSubmit_calls m' =
     onSubmit_calls m @ (if Suc (length (totp m)) = TOTP_LENGTH then [totp m @ [c]] else [])"
    unfolding m'_def by (rule keystroke_digit_calls [OF c len])
  have r: "run (map Keystroke (c # ds)) m = run (map Keystroke ds) m'"
    unfolding m'_def by (simp add: run_Cons)
  have "length (totp m') + length ds \<le> TOTP_LENGTH" using Cons.prems t by simp
  from Cons.IH [OF ds this] show ?case
    unfolding r using Cons.prems by (cases ds) (simp_all add: t k)
qed

lemma Number_1e3: "Number ''1e3'' = NotNaN"
  by (simp add: Number_def trimStrWhiteSpace_def isStrWhiteSpaceChar_def
      isStrNumericLiteral_def isStrUnsignedDecimalLiteral_def isDecimalDigit_def
      isDecimalDigits_def)

lemma Number_space: "Number '' '' = NotNaN"
  by (simp add: Number_def trimStrWhiteSpace_def isStrWhiteSpaceChar_def)

lemma handlePaste_rejects:
  "length text > TOTP_LENGTH \<or> isNaN (Number text) \<Longrightarrow>
   totp (handlePaste text m) = [] \<and>
   onSubmit_calls (handlePaste text m) = onSubmit_calls m \<and>
   toasts (handlePaste text m) =
     toasts m @ [(''Invalid TOTP: Must be string of six digits'', ''danger'')]"
  by (auto simp: handlePaste_def toast_def preventDefault_def Let_def)

lemma handleInput_rejects:
  "isNaN (Number v) \<Longrightarrow>
   totp (handleInput i v m) = totp m \<and> toasts (handleInput i v m) = toasts m \<and>
   focused (handleInput i v m) = focused m \<and>
   onSubmit_calls (handleInput i v m) = onSubmit_calls m"
  by (simp add: handleInput_def preventDefault_def)

lemma handleInput_no_toast: "toasts (handleInput i v m) = toasts m"
  by (simp add: handleInput_def preventDefault_def focus_input_def handleSubmit_def Let_def)

text \<open>
  The length bound holds along every run: a keystroke reaches \<^verbatim>\<open>handleInput\<close> only
  through a cell that is not disabled, and a paste longer than \<open>TOTP_LENGTH\<close> is rejected.
\<close>

lemma dispatch_length:
  assumes "length (totp m) \<le> TOTP_LENGTH"
  shows "length (totp (dispatch e m)) \<le> TOTP_LENGTH"
proof (cases e)
  case (Keystroke c)
  then show ?thesis using assms
    by (simp add: enabled_cell_eq handleInput_def preventDefault_def focus_input_def
        handleSubmit_def Let_def)
next
  case (KeyUp key)
  then show ?thesis using assms
    by (simp add: enabled_cell_eq handleKeyUp_def preventDefault_def focus_input_def Let_def)
next
  case (Paste payload)
  then show ?thesis using assms
    by (simp add: enabled_cell_eq handlePaste_def preventDefault_def toast_def
        handleSubmit_def Let_def)
next
  case (SubmitResult b)
  then show ?thesis using assms
    by (simp add: handleSubmit_resume_def focus_input_def)
next
  case Hidden
  then show ?thesis by (simp add: clearTotp_def)
qed

lemma run_length:
  "length (totp m) \<le> TOTP_LENGTH \<Longrightarrow> length (totp (run es m)) \<le> TOTP_LENGTH"
proof (induction es arbitrary: m)
  case Nil
  then show ?case by (simp add: run_Nil)
next
  case (Cons e es)
  have "length (totp (dispatch e m)) \<le> TOTP_LENGTH"
    by (rule dispatch_length [OF Cons.prems])
  then show ?case unfolding run_Cons by (rule Cons.IH)
qed

subsection \<open>Typing six digits\<close>

text \<open>
  C1. Six single-digit keystrokes typed left to right into an empty grid, each handled by
  \<^verbatim>\<open>handleInput\<close> on the cell that is enabled at that moment, make the component
  invoke \<^verbatim>\<open>onSubmit\<close> exactly once, with the six digits in order: the call log grows
  by that one entry.
\<close>

theorem six_keystrokes_submit_once:
  assumes "length ds = TOTP_LENGTH" and "list_all isDecimalDigit ds" and "totp m = []"
  shows "onSubmit_calls (run (map Keystroke ds) m) = onSubmit_calls m @ [ds]"
proof -
  have "ds \<noteq> []" using assms(1) by (auto simp: TOTP_LENGTH_def)
  then show ?thesis using keystrokes_digits [of ds m] assms by simp
qed

theorem six_keystrokes_submit_once_witness:
  "length ''123456'' = TOTP_LENGTH \<and> list_all isDecimalDigit ''123456'' \<and> totp initial = [] \<and>
   onSubmit_calls (run (map Keystroke ''123456'') initial) = [''123456'']"
proof -
  have 1: "length ''123456'' = TOTP_LENGTH" by (simp add: TOTP_LENGTH_def)
  have 2: "list_all isDecimalDigit ''123456''" by (simp add: isDecimalDigit_def)
  have 3: "totp initial = []" by (simp add: initial_def)
  have "onSubmit_calls (run (map Keystroke ''123456'') initial)
          = onSubmit_calls initial @ [''123456'']"
    by (rule six_keystrokes_submit_once [OF 1 2 3])
  then show ?thesis using 1 2 3 by (simp add: initial_def)
qed

subsection \<open>Paste\<close>

text \<open>
  C2. The claim: a paste whose payload is longer than 6 characters, or contains a
  character that is not a decimal digit, triggers no \<^verbatim>\<open>onSubmit\<close> call, shows the
  notification "Invalid TOTP: Must be string of six digits" and empties the code.
  \<^verbatim>\<open>handlePaste\<close> tests the second condition with \<^verbatim>\<open>isNaN(Number(text))\<close>, and
  \<^verbatim>\<open>Number\<close> accepts more than digit strings. Pasting \<^verbatim>\<open>1e3\<close> into a fresh component
  shows no notification, stores \<^verbatim>\<open>1e3\<close> as the code and submits it (lemma
  \<open>handlePaste_rejects\<close> covers the payloads the test does reject).
\<close>

theorem paste_1e3_is_submitted:
  "\<not> list_all isDecimalDigit ''1e3'' \<and>
   totp (handlePaste ''1e3'' initial) = ''1e3'' \<and>
   onSubmit_calls (handlePaste ''1e3'' initial) = [''1e3''] \<and>
   toasts (handlePaste ''1e3'' initial) = []"
  by (simp add: handlePaste_def Number_1e3 isNaN_def handleSubmit_def preventDefault_def
      initial_def TOTP_LENGTH_def isDecimalDigit_def)

text \<open>
  C3. A paste whose payload passes the handler's validation (at most 6 characters, and
  \<^verbatim>\<open>Number(text)\<close> is not NaN) sets the code to exactly the pasted text and invokes
  \<^verbatim>\<open>onSubmit\<close> once with it, without a notification, whatever the code was before and
  also when the text is shorter than 6 characters. Every string of decimal digits passes
  (lemma \<open>Number_digits\<close>).
\<close>

theorem paste_valid_submits:
  assumes "length text \<le> TOTP_LENGTH" and "\<not> isNaN (Number text)"
  shows "totp (handlePaste text m) = text \<and>
         onSubmit_calls (handlePaste text m) = onSubmit_calls m @ [text] \<and>
         toasts (handlePaste text m) = toasts m"
  using assms by (simp add: handlePaste_def handleSubmit_def preventDefault_def Let_def)

theorem paste_valid_submits_witness:
  "length ''123'' \<le> TOTP_LENGTH \<and> \<not> isNaN (Number ''123'') \<and>
   totp (handlePaste ''123'' (initial\<lparr>totp := ''98''\<rparr>)) = ''123'' \<and>
   onSubmit_calls (handlePaste ''123'' (initial\<lparr>totp := ''98''\<rparr>)) = [''123''] \<and>
   toasts (handlePaste ''123'' (initial\<lparr>totp := ''98''\<rparr>)) = []"
proof -
  have 1: "length ''123'' \<le> TOTP_LENGTH" by (simp add: TOTP_LENGTH_def)
  have 2: "\<not> isNaN (Number ''123'')"
    by (simp add: Number_digits isDecimalDigit_def isNaN_def)
  show ?thesis
    using 1 2 paste_valid_submits [OF 1 2, of "initial\<lparr>totp := ''98''\<rparr>"]
    by (simp add: initial_def)
qed

text \<open>
  C9. Pasting the empty string passes the validation: the code becomes the empty string
  and \<^verbatim>\<open>onSubmit\<close> is invoked once with the empty string.
\<close>

theorem paste_empty_submits:
  "totp (handlePaste [] m) = [] \<and>
   onSubmit_calls (handlePaste [] m) = onSubmit_calls m @ [[]] \<and>
   toasts (handlePaste [] m) = toasts m"
  by (simp add: handlePaste_def Number_def trimStrWhiteSpace_def isNaN_def handleSubmit_def
      preventDefault_def Let_def)

theorem paste_empty_submits_witness:
  "totp (handlePaste [] initial) = [] \<and>
   onSubmit_calls (handlePaste [] initial) = [[]] \<and>
   toasts (handlePaste [] initial) = []"
  using paste_empty_submits [of initial] by (simp add: initial_def)

subsection \<open>The result of a submission\<close>

text \<open>
  C4. When the \<^verbatim>\<open>onSubmit\<close> promise resolves false, the code becomes empty, focus goes
  to cell 0 and cell 0 is the enabled cell; when it resolves true, the component is left
  as it is.
\<close>

theorem submit_result:
  "handleSubmit_resume False m = m\<lparr>totp := [], focused := Some 0\<rparr> \<and>
   enabled_cell (handleSubmit_resume False m) = Some 0 \<and>
   handleSubmit_resume True m = m"
  by (simp add: handleSubmit_resume_def focus_input_def enabled_cell_eq TOTP_LENGTH_def)

theorem submit_result_witness:
  "handleSubmit_resume False (handleSubmit ''123456'' (initial\<lparr>totp := ''123456''\<rparr>))
     = (handleSubmit ''123456'' (initial\<lparr>totp := ''123456''\<rparr>))\<lparr>totp := [], focused := Some 0\<rparr> \<and>
   enabled_cell (handleSubmit_resume False (handleSubmit ''123456'' (initial\<lparr>totp := ''123456''\<rparr>))) = Some 0 \<and>
   handleSubmit_resume True (handleSubmit ''123456'' (initial\<lparr>totp := ''123456''\<rparr>))
     = handleSubmit ''123456'' (initial\<lparr>totp := ''123456''\<rparr>)"
  by (rule submit_result)

subsection \<open>Keystrokes that are not digits\<close>

text \<open>
  C5. The claim: a keystroke of a non-digit character leaves the code unchanged and shows
  no notification. \<^verbatim>\<open>handleInput\<close> rejects a value only when \<^verbatim>\<open>isNaN(value)\<close> holds,
  and a blank converts to 0: typing a space into cell 0 of a fresh component appends the
  space to the code. No notification is shown in any case (lemma
  \<open>handleInput_no_toast\<close>), and a character that does convert to NaN is rejected
  (lemma \<open>handleInput_rejects\<close>).
\<close>

theorem keystroke_space_is_appended:
  "\<not> isDecimalDigit (CHR '' '') \<and>
   dispatch (Keystroke (CHR '' '')) initial = handleInput 0 '' '' initial \<and>
   totp (handleInput 0 '' '' initial) = '' '' \<and>
   toasts (handleInput 0 '' '' initial) = []"
  by (simp add: enabled_cell_eq handleInput_def Number_space isNaN_def focus_input_def
      initial_def TOTP_LENGTH_def isDecimalDigit_def)

subsection \<open>The code in progress along a run\<close>

text \<open>
  C6. The claim: along every sequence of keystrokes, backspaces, pastes, submission
  results and hidden events the code has at most 6 characters, all decimal digits. The
  length bound holds (lemma \<open>run_length\<close>). The digit part does not: after the
  keystroke \<^verbatim>\<open>4\<close> and a paste of \<^verbatim>\<open>1e3\<close> the code is \<^verbatim>\<open>1e3\<close>.
\<close>

theorem reachable_totp_not_digits:
  "totp (run [Keystroke (CHR ''4''), Paste ''1e3''] initial) = ''1e3'' \<and>
   \<not> list_all isDecimalDigit (totp (run [Keystroke (CHR ''4''), Paste ''1e3''] initial))"
  by (simp add: run_def enabled_cell_eq handleInput_def handlePaste_def Number_1e3
      Number_digits isNaN_def handleSubmit_def preventDefault_def focus_input_def
      initial_def TOTP_LENGTH_def isDecimalDigit_def)

subsection \<open>Rendering\<close>

text \<open>
  C7. Render produces six cells, and cell \<open>i\<close> (\<open>0 \<le> i \<le> 5\<close>) is enabled iff the
  length of the code is \<open>i\<close>; every other cell is disabled.
\<close>

theorem cell_enabled_iff:
  assumes "i \<le> 5"
  shows "length (render_inputs m) = 6 \<and>
         (\<not> cell_disabled (render_inputs m ! i)) = (length (totp m) = i)"
  using assms by (simp add: render_inputs_def TOTP_LENGTH_def)

theorem cell_enabled_iff_witness:
  "(2::nat) \<le> 5 \<and> length (render_inputs (initial\<lparr>totp := ''12''\<rparr>)) = 6 \<and>
   (\<not> cell_disabled (render_inputs (initial\<lparr>totp := ''12''\<rparr>) ! 2)) \<and>
   cell_disabled (render_inputs (initial\<lparr>totp := ''12''\<rparr>) ! 3)"
proof -
  have 2: "(2::nat) \<le> 5" and 3: "(3::nat) \<le> 5" by simp_all
  show ?thesis
    using cell_enabled_iff [OF 2, of "initial\<lparr>totp := ''12''\<rparr>"]
      cell_enabled_iff [OF 3, of "initial\<lparr>totp := ''12''\<rparr>"]
    by simp
qed

subsection \<open>Visibility\<close>




subsection \<open>The shown event in generate mode\<close>



end
